theory Spec2Isabelle
  imports Complex_Main "HOL-Library.Multiset" "HOL-Library.Sublist"
begin

section \<open>Strings, errors and numbers\<close>

text \<open>
  The dashboard is a Python script over three hard-coded tables. Its strings are Python
  \<open>str\<close> values, that is sequences of Unicode code points, and most of them are Japanese.
  A string is therefore held as the list of its code points; equality, list membership
  and substring search then mean what they mean in Python. Every string constant below
  gives the code points of one literal of the script, with a transliteration beside it.
\<close>

type_synonym pystr = "nat list"

text \<open>The exceptions the embedded code can raise.\<close>

datatype error = ValueError | ZeroDivisionError | IndexError

text \<open>
  Integers are Python's unbounded ones where the script computes on Python \<open>int\<close>s, and
  stand for 64-bit cells where it computes on DataFrame columns; every sum over the three
  tables is far below \<open>2 ^ 63\<close>. A double is held as the exact rational it approximates,
  so the binary rounding error of floating point is outside this development.

  Python's \<open>/\<close> on two \<open>int\<close>s is true division and raises on a zero divisor.
\<close>

definition py_truediv :: "int \<Rightarrow> int \<Rightarrow> error + rat" where
  "py_truediv a b = (if b = 0 then Inl ZeroDivisionError else Inr (of_int a / of_int b))"

text \<open>
  A cell of a float column, or a float scalar of numpy: a finite value or one of the three
  non-finite ones.
\<close>

datatype float64 = Finite rat | PosInf | NegInf | NaN

text \<open>
  \<open>/\<close> on numpy integers (the cells and sums of a DataFrame column) does not raise: a
  zero divisor gives \<open>inf\<close>, \<open>-inf\<close> or \<open>nan\<close> by the sign of the dividend.
\<close>

definition np_truediv :: "int \<Rightarrow> int \<Rightarrow> float64" where
  "np_truediv a b =
     (if b = 0 then (if 0 < a then PosInf else if a < 0 then NegInf else NaN)
      else Finite (of_int a / of_int b))"

text \<open>\<open>x * 100\<close>: the factor is positive, so a non-finite value stays what it is.\<close>

fun times_100 :: "float64 \<Rightarrow> float64" where
  "times_100 (Finite v) = Finite (v * 100)"
| "times_100 x = x"

text \<open>Rounding to the nearest integer, a tie going to the even neighbour.\<close>

definition round_half_even :: "rat \<Rightarrow> int" where
  "round_half_even x =
     (let f = \<lfloor>x\<rfloor>; d = x - of_int f
      in if d < 1 / 2 then f else if 1 / 2 < d then f + 1 else if even f then f else f + 1)"

text \<open>\<open>Series.round(1)\<close>: scale by ten, round to the nearest integer, scale back.\<close>

fun round_1 :: "float64 \<Rightarrow> float64" where
  "round_1 (Finite v) = Finite (of_int (round_half_even (v * 10)) / 10)"
| "round_1 x = x"

text \<open>The decimal digits of a natural number, as \<open>str\<close> prints them.\<close>

fun str_nat :: "nat \<Rightarrow> string" where
  "str_nat n =
     (if n < 10 then [''0123456789'' ! n]
      else str_nat (n div 10) @ [''0123456789'' ! (n mod 10)])"

text \<open>
  The format specification \<open>.df\<close> of an f-string (\<open>d\<close> digits after the point, and no
  point when \<open>d = 0\<close>): the sign, then the magnitude rounded at the \<open>d\<close>-th decimal.
\<close>

fun format_f :: "nat \<Rightarrow> float64 \<Rightarrow> string" where
  "format_f d (Finite x) =
     (let n = nat (round_half_even (\<bar>x\<bar> * 10 ^ d));
          ip = str_nat (n div 10 ^ d);
          fp = str_nat (n mod 10 ^ d)
      in (if x < 0 then ''-'' else []) @ ip @
         (if d = 0 then [] else ''.'' @ replicate (d - length fp) (CHR ''0'') @ fp))"
| "format_f d PosInf = ''inf''"
| "format_f d NegInf = ''-inf''"
| "format_f d NaN = ''nan''"

text \<open>
  \<open>astype(str)\<close> on a float column. The column it is applied to holds values rounded to
  one decimal, and \<open>str\<close> prints such a value with exactly that decimal.
\<close>

definition astype_str :: "float64 \<Rightarrow> string" where
  "astype_str x = format_f 1 x"

section \<open>The prefecture table\<close>

text \<open>The 47 prefecture names of \<open>load_prefecture_data\<close>, in source order.\<close>

definition pref_Hokkaido :: pystr where "pref_Hokkaido = [0x5317, 0x6D77, 0x9053]"
definition pref_Aomori :: pystr where "pref_Aomori = [0x9752, 0x68EE, 0x770C]"
definition pref_Iwate :: pystr where "pref_Iwate = [0x5CA9, 0x624B, 0x770C]"
definition pref_Miyagi :: pystr where "pref_Miyagi = [0x5BAE, 0x57CE, 0x770C]"
definition pref_Akita :: pystr where "pref_Akita = [0x79CB, 0x7530, 0x770C]"
definition pref_Yamagata :: pystr where "pref_Yamagata = [0x5C71, 0x5F62, 0x770C]"
definition pref_Fukushima :: pystr where "pref_Fukushima = [0x798F, 0x5CF6, 0x770C]"
definition pref_Ibaraki :: pystr where "pref_Ibaraki = [0x8328, 0x57CE, 0x770C]"
definition pref_Tochigi :: pystr where "pref_Tochigi = [0x6803, 0x6728, 0x770C]"
definition pref_Gunma :: pystr where "pref_Gunma = [0x7FA4, 0x99AC, 0x770C]"
definition pref_Saitama :: pystr where "pref_Saitama = [0x57FC, 0x7389, 0x770C]"
definition pref_Chiba :: pystr where "pref_Chiba = [0x5343, 0x8449, 0x770C]"
definition pref_Tokyo :: pystr where "pref_Tokyo = [0x6771, 0x4EAC, 0x90FD]"
definition pref_Kanagawa :: pystr where "pref_Kanagawa = [0x795E, 0x5948, 0x5DDD, 0x770C]"
definition pref_Niigata :: pystr where "pref_Niigata = [0x65B0, 0x6F5F, 0x770C]"
definition pref_Toyama :: pystr where "pref_Toyama = [0x5BCC, 0x5C71, 0x770C]"
definition pref_Ishikawa :: pystr where "pref_Ishikawa = [0x77F3, 0x5DDD, 0x770C]"
definition pref_Fukui :: pystr where "pref_Fukui = [0x798F, 0x4E95, 0x770C]"
definition pref_Yamanashi :: pystr where "pref_Yamanashi = [0x5C71, 0x68A8, 0x770C]"
definition pref_Nagano :: pystr where "pref_Nagano = [0x9577, 0x91CE, 0x770C]"
definition pref_Gifu :: pystr where "pref_Gifu = [0x5C90, 0x961C, 0x770C]"
definition pref_Shizuoka :: pystr where "pref_Shizuoka = [0x9759, 0x5CA1, 0x770C]"
definition pref_Aichi :: pystr where "pref_Aichi = [0x611B, 0x77E5, 0x770C]"
definition pref_Mie :: pystr where "pref_Mie = [0x4E09, 0x91CD, 0x770C]"
definition pref_Shiga :: pystr where "pref_Shiga = [0x6ECB, 0x8CC0, 0x770C]"
definition pref_Kyoto :: pystr where "pref_Kyoto = [0x4EAC, 0x90FD, 0x5E9C]"
definition pref_Osaka :: pystr where "pref_Osaka = [0x5927, 0x962A, 0x5E9C]"
definition pref_Hyogo :: pystr where "pref_Hyogo = [0x5175, 0x5EAB, 0x770C]"
definition pref_Nara :: pystr where "pref_Nara = [0x5948, 0x826F, 0x770C]"
definition pref_Wakayama :: pystr where "pref_Wakayama = [0x548C, 0x6B4C, 0x5C71, 0x770C]"
definition pref_Tottori :: pystr where "pref_Tottori = [0x9CE5, 0x53D6, 0x770C]"
definition pref_Shimane :: pystr where "pref_Shimane = [0x5CF6, 0x6839, 0x770C]"
definition pref_Okayama :: pystr where "pref_Okayama = [0x5CA1, 0x5C71, 0x770C]"
definition pref_Hiroshima :: pystr where "pref_Hiroshima = [0x5E83, 0x5CF6, 0x770C]"
definition pref_Yamaguchi :: pystr where "pref_Yamaguchi = [0x5C71, 0x53E3, 0x770C]"
definition pref_Tokushima :: pystr where "pref_Tokushima = [0x5FB3, 0x5CF6, 0x770C]"
definition pref_Kagawa :: pystr where "pref_Kagawa = [0x9999, 0x5DDD, 0x770C]"
definition pref_Ehime :: pystr where "pref_Ehime = [0x611B, 0x5A9B, 0x770C]"
definition pref_Kochi :: pystr where "pref_Kochi = [0x9AD8, 0x77E5, 0x770C]"
definition pref_Fukuoka :: pystr where "pref_Fukuoka = [0x798F, 0x5CA1, 0x770C]"
definition pref_Saga :: pystr where "pref_Saga = [0x4F50, 0x8CC0, 0x770C]"
definition pref_Nagasaki :: pystr where "pref_Nagasaki = [0x9577, 0x5D0E, 0x770C]"
definition pref_Kumamoto :: pystr where "pref_Kumamoto = [0x718A, 0x672C, 0x770C]"
definition pref_Oita :: pystr where "pref_Oita = [0x5927, 0x5206, 0x770C]"
definition pref_Miyazaki :: pystr where "pref_Miyazaki = [0x5BAE, 0x5D0E, 0x770C]"
definition pref_Kagoshima :: pystr where "pref_Kagoshima = [0x9E7F, 0x5150, 0x5CF6, 0x770C]"
definition pref_Okinawa :: pystr where "pref_Okinawa = [0x6C96, 0x7E04, 0x770C]"

definition prefectures :: "pystr list" where
  "prefectures =
    [pref_Hokkaido, pref_Aomori, pref_Iwate, pref_Miyagi, pref_Akita, pref_Yamagata, pref_Fukushima,
     pref_Ibaraki, pref_Tochigi, pref_Gunma, pref_Saitama, pref_Chiba, pref_Tokyo, pref_Kanagawa,
     pref_Niigata, pref_Toyama, pref_Ishikawa, pref_Fukui, pref_Yamanashi, pref_Nagano, pref_Gifu,
     pref_Shizuoka, pref_Aichi, pref_Mie, pref_Shiga, pref_Kyoto, pref_Osaka, pref_Hyogo,
     pref_Nara, pref_Wakayama, pref_Tottori, pref_Shimane, pref_Okayama, pref_Hiroshima, pref_Yamaguchi,
     pref_Tokushima, pref_Kagawa, pref_Ehime, pref_Kochi, pref_Fukuoka, pref_Saga, pref_Nagasaki,
     pref_Kumamoto, pref_Oita, pref_Miyazaki, pref_Kagoshima, pref_Okinawa]"

definition populations :: "int list" where
  "populations =
    [5224614, 1237984, 1210534, 2301996, 959502, 1068027, 1833152,
     2867009, 1933146, 1939110, 7344765, 6287734, 14047594, 9237337,
     2201272, 1034814, 1132526, 766863, 809974, 2048011, 1978742,
     3633202, 7542415, 1770254, 1413610, 2578087, 8837685, 5465002,
     1324473, 922584, 553407, 671602, 1888432, 2799702, 1342059,
     728633, 950244, 1334841, 691527, 5135214, 811442, 1312317,
     1738301, 1123852, 1069576, 1588256, 1467480]"

definition areas :: "int list" where
  "areas =
    [83424, 9646, 15275, 7282, 11638, 9323, 13784,
     6097, 6408, 6362, 3798, 5158, 2194, 2416,
     12584, 4248, 4186, 4190, 4465, 13562, 10621,
     7777, 5173, 5774, 4017, 4612, 1905, 8401,
     3691, 4725, 3507, 6708, 7115, 2833, 6112,
     4147, 1877, 5676, 7103, 4988, 832, 1311,
     7409, 6341, 7735, 9187, 2281]"

text \<open>
  One row of the prefecture DataFrame: the columns \<open>todofuken\<close> (prefecture name),
  \<open>jinko\<close> (population), \<open>menseki\<close> (area) and \<open>jinko-mitsudo\<close> (density).
\<close>

record pref_row =
  pr_name :: pystr
  pr_pop :: int
  pr_area :: int
  pr_density :: rat

text \<open>
  The list comprehension \<open>[pop / area for pop, area in zip(populations, areas)]\<close>:
  \<open>zip\<close> stops at the shorter list, and the first zero area raises.
\<close>

fun density_column :: "(int \<times> int) list \<Rightarrow> error + rat list" where
  "density_column [] = Inr []"
| "density_column ((pop, area) # rest) =
     (case py_truediv pop area of
        Inl e \<Rightarrow> Inl e
      | Inr d \<Rightarrow> (case density_column rest of Inl e \<Rightarrow> Inl e | Inr ds \<Rightarrow> Inr (d # ds)))"

text \<open>
  \<open>pd.DataFrame\<close> on a dict of four columns: columns of different lengths raise
  \<open>ValueError\<close>, otherwise row \<open>i\<close> holds the \<open>i\<close>-th cell of every column.
\<close>

fun pref_rows :: "pystr list \<Rightarrow> int list \<Rightarrow> int list \<Rightarrow> rat list \<Rightarrow> pref_row list" where
  "pref_rows (n # ns) (p # ps) (a # as) (d # ds) =
     \<lparr>pr_name = n, pr_pop = p, pr_area = a, pr_density = d\<rparr> # pref_rows ns ps as ds"
| "pref_rows _ _ _ _ = []"

definition DataFrame_pref ::
  "pystr list \<Rightarrow> int list \<Rightarrow> int list \<Rightarrow> rat list \<Rightarrow> error + pref_row list" where
  "DataFrame_pref ns ps as ds =
     (if length ns = length ps \<and> length ps = length as \<and> length as = length ds
      then Inr (pref_rows ns ps as ds) else Inl ValueError)"

definition load_prefecture_data :: "error + pref_row list" where
  "load_prefecture_data =
     (case density_column (zip populations areas) of
        Inl e \<Rightarrow> Inl e
      | Inr ds \<Rightarrow> DataFrame_pref prefectures populations areas ds)"

section \<open>The age table and the time series\<close>

text \<open>The ten age bands of \<open>load_age_data\<close>: "0-9 sai" to "90 sai ijo".\<close>

definition age_0_9 :: pystr where "age_0_9 = [0x30, 0x2D, 0x39, 0x6B73]"
definition age_10_19 :: pystr where "age_10_19 = [0x31, 0x30, 0x2D, 0x31, 0x39, 0x6B73]"
definition age_20_29 :: pystr where "age_20_29 = [0x32, 0x30, 0x2D, 0x32, 0x39, 0x6B73]"
definition age_30_39 :: pystr where "age_30_39 = [0x33, 0x30, 0x2D, 0x33, 0x39, 0x6B73]"
definition age_40_49 :: pystr where "age_40_49 = [0x34, 0x30, 0x2D, 0x34, 0x39, 0x6B73]"
definition age_50_59 :: pystr where "age_50_59 = [0x35, 0x30, 0x2D, 0x35, 0x39, 0x6B73]"
definition age_60_69 :: pystr where "age_60_69 = [0x36, 0x30, 0x2D, 0x36, 0x39, 0x6B73]"
definition age_70_79 :: pystr where "age_70_79 = [0x37, 0x30, 0x2D, 0x37, 0x39, 0x6B73]"
definition age_80_89 :: pystr where "age_80_89 = [0x38, 0x30, 0x2D, 0x38, 0x39, 0x6B73]"
definition age_90_plus :: pystr where "age_90_plus = [0x39, 0x30, 0x6B73, 0x4EE5, 0x4E0A]"

definition age_groups :: "pystr list" where
  "age_groups =
    [age_0_9, age_10_19, age_20_29, age_30_39, age_40_49,
     age_50_59, age_60_69, age_70_79, age_80_89, age_90_plus]"

definition age_populations :: "int list" where
  "age_populations =
    [9500000, 11200000, 12800000, 14500000, 16800000,
     17200000, 16500000, 12400000, 8100000, 2500000]"

text \<open>A row of the age DataFrame: the columns \<open>nenreiso\<close> (age band) and \<open>jinko\<close>.\<close>

record age_row =
  ag_label :: pystr
  ag_pop :: int

definition DataFrame_age :: "pystr list \<Rightarrow> int list \<Rightarrow> error + age_row list" where
  "DataFrame_age ls ps =
     (if length ls = length ps
      then Inr (map (\<lambda>(l, p). \<lparr>ag_label = l, ag_pop = p\<rparr>) (zip ls ps))
      else Inl ValueError)"

definition load_age_data :: "error + age_row list" where
  "load_age_data = DataFrame_age age_groups age_populations"

text \<open>A row of the time series: the columns \<open>nen\<close> (year) and \<open>sojinko\<close> (total).\<close>

record year_row =
  yr_year :: int
  yr_total :: int

definition years :: "int list" where
  "years = map int [2010 ..< 2024]"

definition total_pop_series :: "int list" where
  "total_pop_series =
    [128057000, 127799000, 127515000, 127298000, 127095000,
     126933000, 126706000, 126443000, 126167000, 125836000,
     125502000, 125124000, 124777000, 124612000]"

definition DataFrame_time :: "int list \<Rightarrow> int list \<Rightarrow> error + year_row list" where
  "DataFrame_time ys ts =
     (if length ys = length ts
      then Inr (map (\<lambda>(y, t). \<lparr>yr_year = y, yr_total = t\<rparr>) (zip ys ts))
      else Inl ValueError)"

definition load_time_series_data :: "error + year_row list" where
  "load_time_series_data = DataFrame_time years total_pop_series"

section \<open>Operations of pandas the views use\<close>

text \<open>
  \<open>nlargest(n, column)\<close> and \<open>nsmallest(n, column)\<close> with the default
  \<open>keep='first'\<close>: the first \<open>n\<close> rows in descending (ascending) order of the column,
  rows of equal value in their order of appearance. pandas sorts the negated column for
  \<open>nlargest\<close> with a stable sort, which is what \<open>sort_key\<close> is.
\<close>

definition nlargest :: "nat \<Rightarrow> ('r \<Rightarrow> 'k::linordered_idom) \<Rightarrow> 'r list \<Rightarrow> 'r list" where
  "nlargest n col df = take n (sort_key (\<lambda>r. - col r) df)"

definition nsmallest :: "nat \<Rightarrow> ('r \<Rightarrow> 'k::linordered_idom) \<Rightarrow> 'r list \<Rightarrow> 'r list" where
  "nsmallest n col df = take n (sort_key col df)"

text \<open>\<open>Series.isin(values)\<close> on one cell, and the sum of a column over the rows kept.\<close>

definition isin :: "pystr list \<Rightarrow> pystr \<Rightarrow> bool" where
  "isin vals s = (s \<in> set vals)"

definition sum_where :: "(age_row \<Rightarrow> bool) \<Rightarrow> age_row list \<Rightarrow> int" where
  "sum_where keep df = sum_list (map ag_pop (filter keep df))"

text \<open>
  \<open>Series.str.contains(pat)\<close> on one cell, for a pattern without regular-expression
  metacharacters: \<open>pat\<close> occurs somewhere in the cell.
\<close>

fun startswith :: "pystr \<Rightarrow> pystr \<Rightarrow> bool" where
  "startswith s [] = True"
| "startswith [] (p # ps) = False"
| "startswith (c # cs) (p # ps) = (c = p \<and> startswith cs ps)"

fun str_contains :: "pystr \<Rightarrow> pystr \<Rightarrow> bool" where
  "str_contains pat [] = (pat = [])"
| "str_contains pat (c # cs) = (startswith (c # cs) pat \<or> str_contains pat cs)"

text \<open>
  \<open>Series.idxmax()\<close> on a column with the default index: the position of the first
  occurrence of the maximum; an empty column raises \<open>ValueError\<close>. The scan keeps the
  best position so far and replaces it only by a strictly larger value.
\<close>

fun argmax_from :: "int list \<Rightarrow> nat \<Rightarrow> nat \<Rightarrow> int \<Rightarrow> nat" where
  "argmax_from [] i best_i best = best_i"
| "argmax_from (x # xs) i best_i best =
     (if best < x then argmax_from xs (Suc i) i x else argmax_from xs (Suc i) best_i best)"

fun idxmax :: "int list \<Rightarrow> error + nat" where
  "idxmax [] = Inl ValueError"
| "idxmax (x # xs) = Inr (argmax_from xs 1 0 x)"

text \<open>\<open>Series.iloc[0]\<close> and \<open>Series.iloc[-1]\<close>: out of bounds on an empty column.\<close>

definition iloc_first :: "'a list \<Rightarrow> error + 'a" where
  "iloc_first xs = (case xs of [] \<Rightarrow> Inl IndexError | x # _ \<Rightarrow> Inr x)"

definition iloc_last :: "'a list \<Rightarrow> error + 'a" where
  "iloc_last xs = (if xs = [] then Inl IndexError else Inr (last xs))"

text \<open>
  \<open>Series.max()\<close>, \<open>min()\<close> and \<open>mean()\<close> of an integer column; on an empty column
  all three are \<open>nan\<close>, which is \<open>None\<close> for the first two.
\<close>

definition series_max :: "int list \<Rightarrow> int option" where
  "series_max xs = (if xs = [] then None else Some (fold max (tl xs) (hd xs)))"

definition series_min :: "int list \<Rightarrow> int option" where
  "series_min xs = (if xs = [] then None else Some (fold min (tl xs) (hd xs)))"

definition series_mean :: "int list \<Rightarrow> float64" where
  "series_mean xs = np_truediv (sum_list xs) (int (length xs))"

section \<open>Column names and selection values\<close>

text \<open>
  The column names: \<open>todofuken\<close> (prefecture), \<open>jinko\<close> (population), \<open>menseki\<close> (area),
  \<open>jinko-mitsudo\<close> (population density), \<open>nen\<close> (year), \<open>sojinko\<close> (total population).
\<close>

definition col_prefecture :: pystr where "col_prefecture = [0x90FD, 0x9053, 0x5E9C, 0x770C]"
definition col_population :: pystr where "col_population = [0x4EBA, 0x53E3]"
definition col_area :: pystr where "col_area = [0x9762, 0x7A4D]"
definition col_density :: pystr where "col_density = [0x4EBA, 0x53E3, 0x5BC6, 0x5EA6]"
definition col_year :: pystr where "col_year = [0x5E74]"
definition col_total_pop :: pystr where "col_total_pop = [0x7DCF, 0x4EBA, 0x53E3]"

text \<open>
  The four options of the sidebar's select box: "population by prefecture", "population
  by age", "population trend" and "population density".
\<close>

definition dt_prefecture :: pystr where
  "dt_prefecture = [0x90FD, 0x9053, 0x5E9C, 0x770C, 0x5225, 0x4EBA, 0x53E3]"
definition dt_age :: pystr where "dt_age = [0x5E74, 0x9F62, 0x5225, 0x4EBA, 0x53E3]"
definition dt_trend :: pystr where "dt_trend = [0x4EBA, 0x53E3, 0x63A8, 0x79FB]"
definition dt_density :: pystr where "dt_density = [0x4EBA, 0x53E3, 0x5BC6, 0x5EA6]"

text \<open>
  The two options of the age view's radio button: "detailed (10-year bands)" and
  "traditional classification (young, working age, elderly)".
\<close>

definition vt_detailed :: pystr where
  "vt_detailed = [0x8A73, 0x7D30, 0xFF08, 0x31, 0x30, 0x6B73, 0x9593, 0x9694, 0xFF09]"
definition vt_traditional :: pystr where
  "vt_traditional =
     [0x5F93, 0x6765, 0x5206, 0x985E, 0xFF08, 0x5E74, 0x5C11, 0x30FB, 0x751F, 0x7523,
      0x5E74, 0x9F62, 0x30FB, 0x9AD8, 0x9F62, 0xFF09]"

text \<open>
  The labels of the three aggregated groups, "young population (0-19)", "working-age
  population (20-59)" and "elderly population (60 and over)", and the pattern \<open>korei\<close>
  ("elderly") the ratio searches for.
\<close>

definition lbl_young :: pystr where
  "lbl_young = [0x5E74, 0x5C11, 0x4EBA, 0x53E3, 0xFF08, 0x30, 0x2D, 0x31, 0x39, 0x6B73, 0xFF09]"
definition lbl_working :: pystr where
  "lbl_working =
     [0x751F, 0x7523, 0x5E74, 0x9F62, 0x4EBA, 0x53E3, 0xFF08, 0x32, 0x30, 0x2D, 0x35, 0x39,
      0x6B73, 0xFF09]"
definition lbl_elderly :: pystr where
  "lbl_elderly =
     [0x9AD8, 0x9F62, 0x4EBA, 0x53E3, 0xFF08, 0x36, 0x30, 0x6B73, 0x4EE5, 0x4E0A, 0xFF09]"
definition pat_elderly :: pystr where "pat_elderly = [0x9AD8, 0x9F62]"

section \<open>Chart descriptions\<close>

text \<open>
  A call of \<open>plotly.express\<close>: the kind of chart, the rows it is given and the column
  each encoding is bound to. Titles, colour scales and axis angles are presentation only
  and are left out.
\<close>

datatype chart_kind = Scatter | BarHorizontal | Line

record 'r chart =
  ch_kind :: chart_kind
  ch_data :: "'r list"
  ch_x :: pystr
  ch_y :: pystr
  ch_size :: "pystr option"
  ch_color :: "pystr option"
  ch_hover_name :: "pystr option"

section \<open>The prefecture view\<close>

text \<open>
  The branch \<open>data_type == dt_prefecture\<close>: the bubble chart, the four summary metrics
  and the two rankings, each ranking projected on the name and population columns.
\<close>

record prefecture_view =
  pv_fig :: "pref_row chart"
  pv_sum :: int
  pv_max :: "int option"
  pv_min :: "int option"
  pv_mean :: float64
  pv_top_10 :: "(pystr \<times> int) list"
  pv_bottom_10 :: "(pystr \<times> int) list"

definition name_and_pop :: "pref_row \<Rightarrow> pystr \<times> int" where
  "name_and_pop r = (pr_name r, pr_pop r)"

definition top_10 :: "pref_row list \<Rightarrow> (pystr \<times> int) list" where
  "top_10 df_pref = map name_and_pop (nlargest 10 pr_pop df_pref)"

definition bottom_10 :: "pref_row list \<Rightarrow> (pystr \<times> int) list" where
  "bottom_10 df_pref = map name_and_pop (nsmallest 10 pr_pop df_pref)"

definition prefecture_view :: "pref_row list \<Rightarrow> prefecture_view" where
  "prefecture_view df_pref =
     \<lparr>pv_fig = \<lparr>ch_kind = Scatter, ch_data = df_pref, ch_x = col_prefecture,
                ch_y = col_population, ch_size = Some col_population,
                ch_color = Some col_density, ch_hover_name = Some col_prefecture\<rparr>,
      pv_sum = sum_list (map pr_pop df_pref),
      pv_max = series_max (map pr_pop df_pref),
      pv_min = series_min (map pr_pop df_pref),
      pv_mean = series_mean (map pr_pop df_pref),
      pv_top_10 = top_10 df_pref,
      pv_bottom_10 = bottom_10 df_pref\<rparr>"

section \<open>The age view\<close>

text \<open>The membership lists of the traditional classification.\<close>

definition young_bands :: "pystr list" where
  "young_bands = [age_0_9, age_10_19]"

definition working_bands :: "pystr list" where
  "working_bands = [age_20_29, age_30_39, age_40_49, age_50_59]"

definition elderly_bands :: "pystr list" where
  "elderly_bands = [age_60_69, age_70_79, age_80_89, age_90_plus]"

definition young :: "age_row list \<Rightarrow> int" where
  "young df_age = sum_where (\<lambda>r. isin young_bands (ag_label r)) df_age"

definition working :: "age_row list \<Rightarrow> int" where
  "working df_age = sum_where (\<lambda>r. isin working_bands (ag_label r)) df_age"

definition elderly :: "age_row list \<Rightarrow> int" where
  "elderly df_age = sum_where (\<lambda>r. isin elderly_bands (ag_label r)) df_age"

text \<open>
  \<open>df_display\<close>: the three aggregated groups when the radio button is on the
  traditional classification, a copy of the ten bands for any other value.
\<close>

definition df_display :: "age_row list \<Rightarrow> pystr \<Rightarrow> age_row list" where
  "df_display df_age view_type =
     (if view_type = vt_traditional
      then [\<lparr>ag_label = lbl_young, ag_pop = young df_age\<rparr>,
            \<lparr>ag_label = lbl_working, ag_pop = working df_age\<rparr>,
            \<lparr>ag_label = lbl_elderly, ag_pop = elderly df_age\<rparr>]
      else df_age)"

text \<open>
  The elderly ratio, by the same test on the radio button as in the script. The sums are
  unbounded and the quotient exact, as everywhere in this development; the theorems below
  evaluate it on the table of the script only, where the sums are far from the 64-bit
  range and the double, printed with one decimal, shows the digits of the exact value.
\<close>

definition elderly_ratio :: "age_row list \<Rightarrow> pystr \<Rightarrow> float64" where
  "elderly_ratio df_age view_type =
     (let disp = df_display df_age view_type;
          total_pop = sum_list (map ag_pop disp)
      in if view_type = vt_traditional
         then times_100
                (np_truediv (sum_where (\<lambda>r. str_contains pat_elderly (ag_label r)) disp)
                   total_pop)
         else times_100 (np_truediv (elderly df_age) total_pop))"

text \<open>
  The detail table: \<open>df_display\<close> with the share column \<open>koseihi\<close> and its display
  column added.
\<close>

record detail_row =
  dr_label :: pystr
  dr_pop :: int
  dr_share :: float64
  dr_share_display :: string

text \<open>
  One cell of the share column. Here too the quotient is exact, and the theorems below
  evaluate the column on the two record sets of the script only.
\<close>

definition share :: "int \<Rightarrow> int \<Rightarrow> float64" where
  "share pop total_pop = round_1 (times_100 (np_truediv pop total_pop))"

definition detail_table :: "age_row list \<Rightarrow> detail_row list" where
  "detail_table disp =
     map (\<lambda>r. \<lparr>dr_label = ag_label r, dr_pop = ag_pop r,
                dr_share = share (ag_pop r) (sum_list (map ag_pop disp)),
                dr_share_display =
                  astype_str (share (ag_pop r) (sum_list (map ag_pop disp))) @ ''%''\<rparr>)
       disp"

text \<open>
  The branch \<open>data_type == dt_age\<close>: the total, the row \<open>idxmax\<close> points at, the
  elderly ratio with its metric text and the detail table. The pie, bar and pyramid
  charts of this branch only draw the frames and are left out.
\<close>

record age_view =
  av_total_pop :: int
  av_max_group :: age_row
  av_elderly_ratio :: float64
  av_elderly_metric :: string
  av_table :: "detail_row list"

definition age_view :: "age_row list \<Rightarrow> pystr \<Rightarrow> error + age_view" where
  "age_view df_age view_type =
     (let disp = df_display df_age view_type
      in case idxmax (map ag_pop disp) of
           Inl e \<Rightarrow> Inl e
         | Inr i \<Rightarrow>
             Inr \<lparr>av_total_pop = sum_list (map ag_pop disp),
                  av_max_group = disp ! i,
                  av_elderly_ratio = elderly_ratio df_age view_type,
                  av_elderly_metric = format_f 1 (elderly_ratio df_age view_type) @ ''%'',
                  av_table = detail_table disp\<rparr>)"

section \<open>The trend view\<close>

text \<open>
  The branch \<open>data_type == dt_trend\<close>: the line chart and the four metrics. The two
  metric texts are the formatted numbers; the script appends the character U+4EBA
  (\<open>nin\<close>, "persons") to the first and the percent sign, kept here, to the second.
  \<open>iloc[-1]\<close> is read first, for the metric of the latest year, then \<open>iloc[0]\<close>.
\<close>

record trend_view =
  tv_fig :: "year_row chart"
  tv_latest :: int
  tv_change :: int
  tv_annual_change :: float64
  tv_annual_metric :: string
  tv_change_rate :: float64
  tv_rate_metric :: string

definition trend_view :: "year_row list \<Rightarrow> error + trend_view" where
  "trend_view df_time =
     (case iloc_last (map yr_total df_time) of
        Inl e \<Rightarrow> Inl e
      | Inr latest \<Rightarrow>
          (case iloc_first (map yr_total df_time) of
             Inl e \<Rightarrow> Inl e
           | Inr first \<Rightarrow>
               (let change = latest - first;
                    annual_change = np_truediv change (int (length df_time));
                    change_rate = times_100 (np_truediv change first)
                in Inr \<lparr>tv_fig = \<lparr>ch_kind = Line, ch_data = df_time, ch_x = col_year,
                                    ch_y = col_total_pop, ch_size = None, ch_color = None,
                                    ch_hover_name = None\<rparr>,
                         tv_latest = latest,
                         tv_change = change,
                         tv_annual_change = annual_change,
                         tv_annual_metric = format_f 0 annual_change,
                         tv_change_rate = change_rate,
                         tv_rate_metric = format_f 1 change_rate @ ''%''\<rparr>)))"

section \<open>The density view\<close>

text \<open>
  The branch \<open>data_type == dt_density\<close>: the horizontal bar chart of the twenty densest
  prefectures and the scatter chart of population against density.
\<close>

record density_view =
  dv_fig :: "pref_row chart"
  dv_fig2 :: "pref_row chart"

definition density_view :: "pref_row list \<Rightarrow> density_view" where
  "density_view df_pref =
     \<lparr>dv_fig = \<lparr>ch_kind = BarHorizontal, ch_data = nlargest 20 pr_density df_pref,
                ch_x = col_density, ch_y = col_prefecture, ch_size = None,
                ch_color = Some col_density, ch_hover_name = None\<rparr>,
      dv_fig2 = \<lparr>ch_kind = Scatter, ch_data = df_pref, ch_x = col_population,
                 ch_y = col_density, ch_size = Some col_population,
                 ch_color = Some col_density, ch_hover_name = Some col_prefecture\<rparr>\<rparr>"

section \<open>The dispatch on the selected data type\<close>

text \<open>
  The \<open>if\<close>/\<open>elif\<close> chain of the main content. Its result is the view that was built,
  \<open>None\<close> when no branch was taken, or the exception a branch raised.
\<close>

datatype view =
  PrefectureView prefecture_view
| AgeView age_view
| TrendView trend_view
| DensityView density_view

definition main_content :: "pystr \<Rightarrow> pystr \<Rightarrow> error + view option" where
  "main_content data_type view_type =
     (if data_type = dt_prefecture then
        (case load_prefecture_data of
           Inl e \<Rightarrow> Inl e
         | Inr df_pref \<Rightarrow> Inr (Some (PrefectureView (prefecture_view df_pref))))
      else if data_type = dt_age then
        (case load_age_data of
           Inl e \<Rightarrow> Inl e
         | Inr df_age \<Rightarrow>
             (case age_view df_age view_type of
                Inl e \<Rightarrow> Inl e
              | Inr v \<Rightarrow> Inr (Some (AgeView v))))
      else if data_type = dt_trend then
        (case load_time_series_data of
           Inl e \<Rightarrow> Inl e
         | Inr df_time \<Rightarrow>
             (case trend_view df_time of
                Inl e \<Rightarrow> Inl e
              | Inr v \<Rightarrow> Inr (Some (TrendView v))))
      else if data_type = dt_density then
        (case load_prefecture_data of
           Inl e \<Rightarrow> Inl e
         | Inr df_pref \<Rightarrow> Inr (Some (DensityView (density_view df_pref))))
      else Inr None)"

section \<open>Evaluating the number formats\<close>

text \<open>
  The digits of a number are unfolded on numerals only, and the floor of a quotient of
  numerals is an integer division.
\<close>

declare str_nat.simps [simp del]

lemma str_nat_numeral [simp]:
  "str_nat (numeral k) =
     (if (numeral k :: nat) < 10 then [''0123456789'' ! numeral k]
      else str_nat (numeral k div 10) @ [''0123456789'' ! (numeral k mod 10)])"
  by (rule str_nat.simps)

lemma str_nat_0 [simp]: "str_nat 0 = ''0''"
  by (simp add: str_nat.simps)

lemma str_nat_1 [simp]: "str_nat (Suc 0) = ''1''"
  by (simp add: str_nat.simps)

lemma floor_rat_numeral_divide [simp]:
  "\<lfloor>numeral a / numeral b :: rat\<rfloor> = numeral a div numeral b"
  by (metis floor_divide_of_int_eq of_int_numeral)

lemma floor_rat_neg_numeral_divide [simp]:
  "\<lfloor>- (numeral a / numeral b) :: rat\<rfloor> = - numeral a div numeral b"
  by (metis divide_minus_left floor_divide_of_int_eq of_int_neg_numeral of_int_numeral)

lemma floor_rat_one_divide [simp]: "\<lfloor>1 / numeral b :: rat\<rfloor> = 1 div numeral b"
  by (metis floor_divide_of_int_eq of_int_1 of_int_numeral)

section \<open>The prefecture provider\<close>

lemma density_column_nonzero:
  "list_all (\<lambda>(p, a). a \<noteq> 0) ps \<Longrightarrow>
   density_column ps = Inr (map (\<lambda>(p, a). of_int p / of_int a) ps)"
  by (induction ps) (auto simp: py_truediv_def)

text \<open>The table the provider returns, row by row.\<close>

lemma load_prefecture_data_rows:
  "load_prefecture_data = Inr
     [\<lparr>pr_name = pref_Hokkaido, pr_pop = 5224614, pr_area = 83424, pr_density = 5224614 / 83424\<rparr>,
      \<lparr>pr_name = pref_Aomori, pr_pop = 1237984, pr_area = 9646, pr_density = 1237984 / 9646\<rparr>,
      \<lparr>pr_name = pref_Iwate, pr_pop = 1210534, pr_area = 15275, pr_density = 1210534 / 15275\<rparr>,
      \<lparr>pr_name = pref_Miyagi, pr_pop = 2301996, pr_area = 7282, pr_density = 2301996 / 7282\<rparr>,
      \<lparr>pr_name = pref_Akita, pr_pop = 959502, pr_area = 11638, pr_density = 959502 / 11638\<rparr>,
      \<lparr>pr_name = pref_Yamagata, pr_pop = 1068027, pr_area = 9323, pr_density = 1068027 / 9323\<rparr>,
      \<lparr>pr_name = pref_Fukushima, pr_pop = 1833152, pr_area = 13784, pr_density = 1833152 / 13784\<rparr>,
      \<lparr>pr_name = pref_Ibaraki, pr_pop = 2867009, pr_area = 6097, pr_density = 2867009 / 6097\<rparr>,
      \<lparr>pr_name = pref_Tochigi, pr_pop = 1933146, pr_area = 6408, pr_density = 1933146 / 6408\<rparr>,
      \<lparr>pr_name = pref_Gunma, pr_pop = 1939110, pr_area = 6362, pr_density = 1939110 / 6362\<rparr>,
      \<lparr>pr_name = pref_Saitama, pr_pop = 7344765, pr_area = 3798, pr_density = 7344765 / 3798\<rparr>,
      \<lparr>pr_name = pref_Chiba, pr_pop = 6287734, pr_area = 5158, pr_density = 6287734 / 5158\<rparr>,
      \<lparr>pr_name = pref_Tokyo, pr_pop = 14047594, pr_area = 2194, pr_density = 14047594 / 2194\<rparr>,
      \<lparr>pr_name = pref_Kanagawa, pr_pop = 9237337, pr_area = 2416, pr_density = 9237337 / 2416\<rparr>,
      \<lparr>pr_name = pref_Niigata, pr_pop = 2201272, pr_area = 12584, pr_density = 2201272 / 12584\<rparr>,
      \<lparr>pr_name = pref_Toyama, pr_pop = 1034814, pr_area = 4248, pr_density = 1034814 / 4248\<rparr>,
      \<lparr>pr_name = pref_Ishikawa, pr_pop = 1132526, pr_area = 4186, pr_density = 1132526 / 4186\<rparr>,
      \<lparr>pr_name = pref_Fukui, pr_pop = 766863, pr_area = 4190, pr_density = 766863 / 4190\<rparr>,
      \<lparr>pr_name = pref_Yamanashi, pr_pop = 809974, pr_area = 4465, pr_density = 809974 / 4465\<rparr>,
      \<lparr>pr_name = pref_Nagano, pr_pop = 2048011, pr_area = 13562, pr_density = 2048011 / 13562\<rparr>,
      \<lparr>pr_name = pref_Gifu, pr_pop = 1978742, pr_area = 10621, pr_density = 1978742 / 10621\<rparr>,
      \<lparr>pr_name = pref_Shizuoka, pr_pop = 3633202, pr_area = 7777, pr_density = 3633202 / 7777\<rparr>,
      \<lparr>pr_name = pref_Aichi, pr_pop = 7542415, pr_area = 5173, pr_density = 7542415 / 5173\<rparr>,
      \<lparr>pr_name = pref_Mie, pr_pop = 1770254, pr_area = 5774, pr_density = 1770254 / 5774\<rparr>,
      \<lparr>pr_name = pref_Shiga, pr_pop = 1413610, pr_area = 4017, pr_density = 1413610 / 4017\<rparr>,
      \<lparr>pr_name = pref_Kyoto, pr_pop = 2578087, pr_area = 4612, pr_density = 2578087 / 4612\<rparr>,
      \<lparr>pr_name = pref_Osaka, pr_pop = 8837685, pr_area = 1905, pr_density = 8837685 / 1905\<rparr>,
      \<lparr>pr_name = pref_Hyogo, pr_pop = 5465002, pr_area = 8401, pr_density = 5465002 / 8401\<rparr>,
      \<lparr>pr_name = pref_Nara, pr_pop = 1324473, pr_area = 3691, pr_density = 1324473 / 3691\<rparr>,
      \<lparr>pr_name = pref_Wakayama, pr_pop = 922584, pr_area = 4725, pr_density = 922584 / 4725\<rparr>,
      \<lparr>pr_name = pref_Tottori, pr_pop = 553407, pr_area = 3507, pr_density = 553407 / 3507\<rparr>,
      \<lparr>pr_name = pref_Shimane, pr_pop = 671602, pr_area = 6708, pr_density = 671602 / 6708\<rparr>,
      \<lparr>pr_name = pref_Okayama, pr_pop = 1888432, pr_area = 7115, pr_density = 1888432 / 7115\<rparr>,
      \<lparr>pr_name = pref_Hiroshima, pr_pop = 2799702, pr_area = 2833, pr_density = 2799702 / 2833\<rparr>,
      \<lparr>pr_name = pref_Yamaguchi, pr_pop = 1342059, pr_area = 6112, pr_density = 1342059 / 6112\<rparr>,
      \<lparr>pr_name = pref_Tokushima, pr_pop = 728633, pr_area = 4147, pr_density = 728633 / 4147\<rparr>,
      \<lparr>pr_name = pref_Kagawa, pr_pop = 950244, pr_area = 1877, pr_density = 950244 / 1877\<rparr>,
      \<lparr>pr_name = pref_Ehime, pr_pop = 1334841, pr_area = 5676, pr_density = 1334841 / 5676\<rparr>,
      \<lparr>pr_name = pref_Kochi, pr_pop = 691527, pr_area = 7103, pr_density = 691527 / 7103\<rparr>,
      \<lparr>pr_name = pref_Fukuoka, pr_pop = 5135214, pr_area = 4988, pr_density = 5135214 / 4988\<rparr>,
      \<lparr>pr_name = pref_Saga, pr_pop = 811442, pr_area = 832, pr_density = 811442 / 832\<rparr>,
      \<lparr>pr_name = pref_Nagasaki, pr_pop = 1312317, pr_area = 1311, pr_density = 1312317 / 1311\<rparr>,
      \<lparr>pr_name = pref_Kumamoto, pr_pop = 1738301, pr_area = 7409, pr_density = 1738301 / 7409\<rparr>,
      \<lparr>pr_name = pref_Oita, pr_pop = 1123852, pr_area = 6341, pr_density = 1123852 / 6341\<rparr>,
      \<lparr>pr_name = pref_Miyazaki, pr_pop = 1069576, pr_area = 7735, pr_density = 1069576 / 7735\<rparr>,
      \<lparr>pr_name = pref_Kagoshima, pr_pop = 1588256, pr_area = 9187, pr_density = 1588256 / 9187\<rparr>,
      \<lparr>pr_name = pref_Okinawa, pr_pop = 1467480, pr_area = 2281, pr_density = 1467480 / 2281\<rparr>]"
proof -
  have dc: "density_column (zip populations areas) =
      Inr (map (\<lambda>(p, a). of_int p / of_int a) (zip populations areas))"
    by (rule density_column_nonzero) (simp add: populations_def areas_def)
  show ?thesis
    unfolding load_prefecture_data_def dc
    by (simp add: DataFrame_pref_def prefectures_def populations_def areas_def)
qed

text \<open>
  C6. The prefecture provider returns exactly 47 records, and in every record the area is
  positive and the density is the record's population divided by its area.
\<close>

theorem load_prefecture_data_records:
  "\<exists>df. load_prefecture_data = Inr df \<and> length df = 47 \<and>
     (\<forall>r\<in>set df. 0 < pr_area r \<and> pr_density r = of_int (pr_pop r) / of_int (pr_area r))"
  unfolding load_prefecture_data_rows by simp

theorem load_prefecture_data_records_witness:
  "\<exists>df. load_prefecture_data = Inr df \<and> length df = 47 \<and>
     pr_name (df ! 12) = pref_Tokyo \<and> pr_density (df ! 12) = 14047594 / 2194"
proof -
  from load_prefecture_data_records obtain df where
    df: "load_prefecture_data = Inr df" and len: "length df = 47" and
    dens: "\<forall>r\<in>set df. 0 < pr_area r \<and> pr_density r = of_int (pr_pop r) / of_int (pr_area r)"
    by blast
  from len have "df ! 12 \<in> set df"
    by simp
  with dens have d: "pr_density (df ! 12) = of_int (pr_pop (df ! 12)) / of_int (pr_area (df ! 12))"
    by blast
  have "pr_name (df ! 12) = pref_Tokyo" "pr_pop (df ! 12) = 14047594" "pr_area (df ! 12) = 2194"
    using df unfolding load_prefecture_data_rows by auto
  with d df len show ?thesis
    by (intro exI [of _ df]) simp
qed

section \<open>Rankings\<close>

lemma sorted_desc_sort_key:
  "sorted_wrt (\<lambda>a b. col b \<le> col a) (sort_key (\<lambda>r. - col r) (df :: 'r list))"
  for col :: "'r \<Rightarrow> 'k::linordered_idom"
proof -
  have "sorted (map (\<lambda>r. - col r) (sort_key (\<lambda>r. - col r) df))"
    by (rule sorted_sort_key)
  then show ?thesis
    by (simp add: sorted_wrt_map)
qed

lemma sorted_asc_sort_key:
  "sorted_wrt (\<lambda>a b. col a \<le> col b) (sort_key col (df :: 'r list))"
  for col :: "'r \<Rightarrow> 'k::linordered_idom"
proof -
  have "sorted (map col (sort_key col df))"
    by (rule sorted_sort_key)
  then show ?thesis
    by (simp add: sorted_wrt_map)
qed

lemma filter_take_prefix: "prefix (filter P (take n ys)) (filter P ys)"
proof -
  have "filter P ys = filter P (take n ys) @ filter P (drop n ys)"
    by (metis append_take_drop_id filter_append)
  then show ?thesis
    by (simp add: prefix_def)
qed

lemma nlargest_length: "length (nlargest n col df) = min n (length df)"
  by (simp add: nlargest_def min.commute)

lemma nlargest_subset: "set (nlargest n col df) \<subseteq> set df"
  using set_take_subset [of n "sort_key (\<lambda>r. - col r) df"] by (simp add: nlargest_def)

lemma nlargest_sorted: "sorted_wrt (\<lambda>a b. col b \<le> col a) (nlargest n col df)"
  unfolding nlargest_def by (rule sorted_wrt_take) (rule sorted_desc_sort_key)

lemma nlargest_rest:
  "\<exists>rest. mset df = mset (nlargest n col df) + mset rest \<and>
     (\<forall>a\<in>set (nlargest n col df). \<forall>b\<in>set rest. col b \<le> col a)"
proof -
  let ?ys = "sort_key (\<lambda>r. - col r) df"
  have "sorted_wrt (\<lambda>a b. col b \<le> col a) (take n ?ys @ drop n ?ys)"
    by (simp add: sorted_desc_sort_key)
  then have le: "\<forall>a\<in>set (take n ?ys). \<forall>b\<in>set (drop n ?ys). col b \<le> col a"
    unfolding sorted_wrt_append by blast
  have "mset df = mset (take n ?ys @ drop n ?ys)"
    by simp
  then have "mset df = mset (take n ?ys) + mset (drop n ?ys)"
    by (simp only: mset_append)
  with le show ?thesis
    unfolding nlargest_def by blast
qed

lemma nlargest_stable:
  "prefix (filter (\<lambda>r. col r = k) (nlargest n col df)) (filter (\<lambda>r. col r = k) df)"
proof -
  let ?ys = "sort_key (\<lambda>r. - col r) df"
  have "filter (\<lambda>r. - col r = - k) ?ys = filter (\<lambda>r. - col r = - k) df"
    by (rule sort_key_stable)
  then have "filter (\<lambda>r. col r = k) ?ys = filter (\<lambda>r. col r = k) df"
    by simp
  then show ?thesis
    unfolding nlargest_def using filter_take_prefix [of "\<lambda>r. col r = k" n ?ys] by simp
qed

text \<open>
  In a sorted frame, the rows that come strictly before a row of the first \<open>n\<close> are fewer
  than \<open>n\<close>, and so are the values they carry.
\<close>

lemma take_before_card:
  assumes srt: "sorted_wrt (\<lambda>a b. \<not> before b a) ys"
    and irr: "\<And>x. \<not> before x x"
    and r: "r \<in> set (take n ys)"
  shows "card (f ` {x \<in> set ys. before x r}) < n"
proof -
  from r obtain i where i: "i < n" "i < length ys" "ys ! i = r"
    by (auto simp: in_set_conv_nth)
  have sub: "{x \<in> set ys. before x r} \<subseteq> set (take i ys)"
  proof
    fix x assume "x \<in> {x \<in> set ys. before x r}"
    then obtain j where j: "j < length ys" "ys ! j = x" and b: "before x r"
      by (auto simp: in_set_conv_nth)
    have "j < i"
    proof (rule ccontr)
      assume "\<not> j < i"
      then consider "j = i" | "i < j" by linarith
      then show False
      proof cases
        case 1
        with i j b irr show False by auto
      next
        case 2
        from sorted_wrt_nth_less [OF srt 2 j(1)] have "\<not> before (ys ! j) (ys ! i)" .
        with i j b show False by simp
      qed
    qed
    with j show "x \<in> set (take i ys)"
      by (auto simp: in_set_conv_nth)
  qed
  have "card (f ` {x \<in> set ys. before x r}) \<le> card {x \<in> set ys. before x r}"
    by (rule card_image_le) simp
  also have "\<dots> \<le> card (set (take i ys))"
    by (rule card_mono) (use sub in auto)
  also have "\<dots> \<le> length (take i ys)"
    by (rule card_length)
  also have "\<dots> \<le> i"
    by simp
  finally show ?thesis
    using i by simp
qed

lemma nlargest_greater_card:
  fixes col :: "'r \<Rightarrow> int"
  assumes "r \<in> set (nlargest n col df)"
  shows "card {v \<in> col ` set df. col r < v} < n"
proof -
  let ?ys = "sort_key (\<lambda>r. - col r) df"
  have "sorted_wrt (\<lambda>a b. \<not> col a < col b) ?ys"
    using sorted_desc_sort_key [of col df] by (simp add: not_less)
  then have "card (col ` {x \<in> set ?ys. col r < col x}) < n"
    using assms unfolding nlargest_def
    by (intro take_before_card [where before = "\<lambda>x y. col y < col x"]) auto
  moreover have "col ` {x \<in> set ?ys. col r < col x} = {v \<in> col ` set df. col r < v}"
    by auto
  ultimately show ?thesis by simp
qed

lemma nsmallest_less_card:
  fixes col :: "'r \<Rightarrow> int"
  assumes "r \<in> set (nsmallest n col df)"
  shows "card {v \<in> col ` set df. v < col r} < n"
proof -
  let ?ys = "sort_key col df"
  have "sorted_wrt (\<lambda>a b. \<not> col b < col a) ?ys"
    using sorted_asc_sort_key [of col df] by (simp add: not_less)
  then have "card (col ` {x \<in> set ?ys. col x < col r}) < n"
    using assms unfolding nsmallest_def
    by (intro take_before_card [where before = "\<lambda>x y. col x < col y"]) auto
  moreover have "col ` {x \<in> set ?ys. col x < col r} = {v \<in> col ` set df. v < col r}"
    by auto
  ultimately show ?thesis by simp
qed

lemma extremes_share_value:
  fixes col :: "'r \<Rightarrow> int"
  assumes a: "a \<in> set (nlargest n col df)" and b: "b \<in> set (nsmallest n col df)"
    and eq: "col a = col b"
  shows "card (col ` set df) < 2 * n"
proof -
  let ?V = "col ` set df"
  have fin: "finite ?V" by simp
  have split: "?V \<subseteq> {v \<in> ?V. col a < v} \<union> {v \<in> ?V. v < col a} \<union> {col a}"
    by auto
  have "card ?V \<le> card ({v \<in> ?V. col a < v} \<union> {v \<in> ?V. v < col a} \<union> {col a})"
    by (rule card_mono) (use split in auto)
  also have "\<dots> \<le> card ({v \<in> ?V. col a < v} \<union> {v \<in> ?V. v < col a}) + card {col a}"
    by (rule card_Un_le)
  also have "\<dots> \<le> card {v \<in> ?V. col a < v} + card {v \<in> ?V. v < col a} + 1"
    using card_Un_le [of "{v \<in> ?V. col a < v}" "{v \<in> ?V. v < col a}"] by simp
  finally have "card ?V \<le> card {v \<in> ?V. col a < v} + card {v \<in> ?V. v < col a} + 1" .
  moreover have "card {v \<in> ?V. col a < v} < n"
    using nlargest_greater_card [OF a] .
  moreover have "card {v \<in> ?V. v < col a} < n"
    using nsmallest_less_card [OF b] eq by simp
  ultimately show ?thesis by linarith
qed

text \<open>The twenty densest prefectures of the table, in the order of the bar chart.\<close>

lemma density_top20_rows:
  "\<exists>df. load_prefecture_data = Inr df \<and> length df = 47 \<and> nlargest 20 pr_density df =
     [\<lparr>pr_name = pref_Tokyo, pr_pop = 14047594, pr_area = 2194, pr_density = 14047594 / 2194\<rparr>,
      \<lparr>pr_name = pref_Osaka, pr_pop = 8837685, pr_area = 1905, pr_density = 8837685 / 1905\<rparr>,
      \<lparr>pr_name = pref_Kanagawa, pr_pop = 9237337, pr_area = 2416, pr_density = 9237337 / 2416\<rparr>,
      \<lparr>pr_name = pref_Saitama, pr_pop = 7344765, pr_area = 3798, pr_density = 7344765 / 3798\<rparr>,
      \<lparr>pr_name = pref_Aichi, pr_pop = 7542415, pr_area = 5173, pr_density = 7542415 / 5173\<rparr>,
      \<lparr>pr_name = pref_Chiba, pr_pop = 6287734, pr_area = 5158, pr_density = 6287734 / 5158\<rparr>,
      \<lparr>pr_name = pref_Fukuoka, pr_pop = 5135214, pr_area = 4988, pr_density = 5135214 / 4988\<rparr>,
      \<lparr>pr_name = pref_Nagasaki, pr_pop = 1312317, pr_area = 1311, pr_density = 1312317 / 1311\<rparr>,
      \<lparr>pr_name = pref_Hiroshima, pr_pop = 2799702, pr_area = 2833, pr_density = 2799702 / 2833\<rparr>,
      \<lparr>pr_name = pref_Saga, pr_pop = 811442, pr_area = 832, pr_density = 811442 / 832\<rparr>,
      \<lparr>pr_name = pref_Hyogo, pr_pop = 5465002, pr_area = 8401, pr_density = 5465002 / 8401\<rparr>,
      \<lparr>pr_name = pref_Okinawa, pr_pop = 1467480, pr_area = 2281, pr_density = 1467480 / 2281\<rparr>,
      \<lparr>pr_name = pref_Kyoto, pr_pop = 2578087, pr_area = 4612, pr_density = 2578087 / 4612\<rparr>,
      \<lparr>pr_name = pref_Kagawa, pr_pop = 950244, pr_area = 1877, pr_density = 950244 / 1877\<rparr>,
      \<lparr>pr_name = pref_Ibaraki, pr_pop = 2867009, pr_area = 6097, pr_density = 2867009 / 6097\<rparr>,
      \<lparr>pr_name = pref_Shizuoka, pr_pop = 3633202, pr_area = 7777, pr_density = 3633202 / 7777\<rparr>,
      \<lparr>pr_name = pref_Nara, pr_pop = 1324473, pr_area = 3691, pr_density = 1324473 / 3691\<rparr>,
      \<lparr>pr_name = pref_Shiga, pr_pop = 1413610, pr_area = 4017, pr_density = 1413610 / 4017\<rparr>,
      \<lparr>pr_name = pref_Miyagi, pr_pop = 2301996, pr_area = 7282, pr_density = 2301996 / 7282\<rparr>,
      \<lparr>pr_name = pref_Mie, pr_pop = 1770254, pr_area = 5774, pr_density = 1770254 / 5774\<rparr>]"
  unfolding load_prefecture_data_rows by (simp add: nlargest_def)

section \<open>The two population rankings\<close>

lemma populations_distinct: "distinct populations"
  by (simp add: populations_def)

lemma load_prefecture_data_pops:
  "load_prefecture_data = Inr df \<Longrightarrow> map pr_pop df = populations"
  unfolding load_prefecture_data_rows by (auto simp: populations_def)

lemma load_prefecture_data_values:
  assumes "load_prefecture_data = Inr df"
  shows "card (pr_pop ` set df) = 47"
proof -
  have "pr_pop ` set df = set (map pr_pop df)"
    by simp
  also have "\<dots> = set populations"
    using load_prefecture_data_pops [OF assms] by simp
  finally show ?thesis
    using distinct_card [OF populations_distinct] by (simp add: populations_def)
qed

lemma top_bottom_disjoint:
  assumes "2 * n \<le> card (pr_pop ` set df)"
  shows "set (map name_and_pop (nlargest n pr_pop df)) \<inter>
         set (map name_and_pop (nsmallest n pr_pop df)) = {}"
proof (rule ccontr)
  assume "\<not> ?thesis"
  then obtain x where "x \<in> name_and_pop ` set (nlargest n pr_pop df)"
    and "x \<in> name_and_pop ` set (nsmallest n pr_pop df)"
    by auto
  then obtain a b where a: "a \<in> set (nlargest n pr_pop df)"
    and b: "b \<in> set (nsmallest n pr_pop df)" and eq: "name_and_pop a = name_and_pop b"
    by (metis imageE)
  from eq have "pr_pop a = pr_pop b"
    by (simp add: name_and_pop_def)
  from extremes_share_value [OF a b this] assms show False
    by simp
qed

text \<open>
  C7. Whenever the frame has at least 20 distinct population values, the ten most
  populous and the ten least populous prefectures of the prefecture view (each taken with
  ties in source order) have no record in common; the fixed table has 47 distinct
  population values, so its two rankings are disjoint.
\<close>

theorem top_10_bottom_10_disjoint:
  "(20 \<le> card (pr_pop ` set df) \<longrightarrow>
      set (pv_top_10 (prefecture_view df)) \<inter> set (pv_bottom_10 (prefecture_view df)) = {}) \<and>
   (\<exists>t. load_prefecture_data = Inr t \<and> length t = 47 \<and> card (pr_pop ` set t) = 47 \<and>
      set (pv_top_10 (prefecture_view t)) \<inter> set (pv_bottom_10 (prefecture_view t)) = {})"
proof -
  have gen: "set (pv_top_10 (prefecture_view d)) \<inter> set (pv_bottom_10 (prefecture_view d)) = {}"
    if "20 \<le> card (pr_pop ` set d)" for d
    using top_bottom_disjoint [of 10 d] that
    by (simp add: prefecture_view_def top_10_def bottom_10_def)
  obtain t where t: "load_prefecture_data = Inr t" and len: "length t = 47"
    unfolding load_prefecture_data_rows by simp
  from load_prefecture_data_values [OF t] gen [of t] t len show ?thesis
    using gen [of df] by auto
qed

theorem top_10_bottom_10_disjoint_witness:
  "\<exists>t. load_prefecture_data = Inr t \<and> 20 \<le> card (pr_pop ` set t) \<and>
     set (pv_top_10 (prefecture_view t)) \<inter> set (pv_bottom_10 (prefecture_view t)) = {}"
proof -
  obtain t where t: "load_prefecture_data = Inr t"
    unfolding load_prefecture_data_rows by simp
  have c: "20 \<le> card (pr_pop ` set t)"
    using load_prefecture_data_values [OF t] by simp
  with top_10_bottom_10_disjoint [of t] t show ?thesis
    by blast
qed

section \<open>The density ranking and the scatter chart\<close>

text \<open>
  C5. The bar chart of the density view is drawn over \<open>nlargest(20, density)\<close>: at most
  20 rows, all of them rows of the frame, in descending order of density, no row left out
  is denser than a row kept, and rows of equal density keep their source order. On the
  fixed table of 47 prefectures the first row is Tokyo, with population 14047594 and
  area 2194.
\<close>

theorem density_top20_ranking:
  "ch_data (dv_fig (density_view df)) = nlargest 20 pr_density df \<and>
   length (nlargest 20 pr_density df) = min 20 (length df) \<and>
   set (nlargest 20 pr_density df) \<subseteq> set df \<and>
   sorted_wrt (\<lambda>a b. pr_density b \<le> pr_density a) (nlargest 20 pr_density df) \<and>
   (\<exists>rest. mset df = mset (nlargest 20 pr_density df) + mset rest \<and>
      (\<forall>a\<in>set (nlargest 20 pr_density df). \<forall>b\<in>set rest. pr_density b \<le> pr_density a)) \<and>
   (\<forall>k. prefix (filter (\<lambda>r. pr_density r = k) (nlargest 20 pr_density df))
          (filter (\<lambda>r. pr_density r = k) df)) \<and>
   (\<exists>t rest. load_prefecture_data = Inr t \<and> length t = 47 \<and>
      ch_data (dv_fig (density_view t)) =
        \<lparr>pr_name = pref_Tokyo, pr_pop = 14047594, pr_area = 2194,
         pr_density = 14047594 / 2194\<rparr> # rest \<and> length rest = 19)"
proof -
  have fig: "ch_data (dv_fig (density_view d)) = nlargest 20 pr_density d" for d
    by (simp add: density_view_def)
  from density_top20_rows obtain t where t: "load_prefecture_data = Inr t" "length t = 47"
    and top: "\<exists>rest. nlargest 20 pr_density t =
        \<lparr>pr_name = pref_Tokyo, pr_pop = 14047594, pr_area = 2194,
         pr_density = 14047594 / 2194\<rparr> # rest \<and> length rest = 19"
    by auto
  have tokyo: "\<exists>t rest. load_prefecture_data = Inr t \<and> length t = 47 \<and>
      ch_data (dv_fig (density_view t)) =
        \<lparr>pr_name = pref_Tokyo, pr_pop = 14047594, pr_area = 2194,
         pr_density = 14047594 / 2194\<rparr> # rest \<and> length rest = 19"
    using t top unfolding fig by blast
  show ?thesis
    using fig [of df] nlargest_length [of 20 pr_density df] nlargest_subset [of 20 pr_density df]
      nlargest_sorted [of pr_density 20 df] nlargest_rest [of df 20 pr_density]
      nlargest_stable [of pr_density _ 20 df] tokyo
    by (intro conjI allI) assumption+
qed

theorem density_top20_ranking_witness:
  "ch_data (dv_fig (density_view
      [\<lparr>pr_name = [0x41], pr_pop = 10, pr_area = 5, pr_density = 2\<rparr>,
       \<lparr>pr_name = [0x42], pr_pop = 30, pr_area = 6, pr_density = 5\<rparr>,
       \<lparr>pr_name = [0x43], pr_pop = 25, pr_area = 5, pr_density = 5\<rparr>])) =
      [\<lparr>pr_name = [0x42], pr_pop = 30, pr_area = 6, pr_density = 5\<rparr>,
       \<lparr>pr_name = [0x43], pr_pop = 25, pr_area = 5, pr_density = 5\<rparr>,
       \<lparr>pr_name = [0x41], pr_pop = 10, pr_area = 5, pr_density = 2\<rparr>] \<and>
   sorted_wrt (\<lambda>a b. pr_density b \<le> pr_density a)
      [\<lparr>pr_name = [0x42], pr_pop = 30, pr_area = 6, pr_density = 5\<rparr>,
       \<lparr>pr_name = [0x43], pr_pop = 25, pr_area = 5, pr_density = 5\<rparr>,
       \<lparr>pr_name = [0x41], pr_pop = 10, pr_area = 5, pr_density = 2\<rparr>]"
  using density_top20_ranking
    [of "[\<lparr>pr_name = [0x41], pr_pop = 10, pr_area = 5, pr_density = 2\<rparr>,
          \<lparr>pr_name = [0x42], pr_pop = 30, pr_area = 6, pr_density = 5\<rparr>,
          \<lparr>pr_name = [0x43], pr_pop = 25, pr_area = 5, pr_density = 5\<rparr>]"]
  by (simp add: nlargest_def)

text \<open>
  C1 as stated fails: the point size of the scatter chart is not bound to the density
  column.
\<close>

theorem density_scatter_size_counterexample:
  "\<not> isl load_prefecture_data \<and>
   length (ch_data (dv_fig2 (density_view (projr load_prefecture_data)))) = 47 \<and>
   ch_size (dv_fig2 (density_view (projr load_prefecture_data))) \<noteq> Some col_density"
  unfolding load_prefecture_data_rows
  by (simp add: density_view_def col_population_def col_density_def)

text \<open>
  C1, amended. In the density view, the scatter chart of population versus density is
  built over all 47 prefecture records; its point size is bound to the population column
  and its colour to the density column.
\<close>

theorem density_scatter_encodings:
  "\<exists>df. load_prefecture_data = Inr df \<and> length df = 47 \<and>
     main_content dt_density view_type = Inr (Some (DensityView (density_view df))) \<and>
     ch_kind (dv_fig2 (density_view df)) = Scatter \<and>
     ch_data (dv_fig2 (density_view df)) = df \<and>
     ch_x (dv_fig2 (density_view df)) = col_population \<and>
     ch_y (dv_fig2 (density_view df)) = col_density \<and>
     ch_size (dv_fig2 (density_view df)) = Some col_population \<and>
     ch_color (dv_fig2 (density_view df)) = Some col_density \<and>
     col_population \<noteq> col_density"
proof -
  obtain df where df: "load_prefecture_data = Inr df" "length df = 47"
    unfolding load_prefecture_data_rows by simp
  have "main_content dt_density view_type = Inr (Some (DensityView (density_view df)))"
    by (simp add: main_content_def df dt_density_def dt_prefecture_def dt_age_def dt_trend_def)
  with df show ?thesis
    by (intro exI [of _ df]) (simp add: density_view_def col_population_def col_density_def)
qed

section \<open>A selection outside the four options\<close>

text \<open>
  C10. For a selection value outside the four options the chain of tests takes no branch:
  no view is produced and no exception is raised.
\<close>

theorem main_content_other_selection:
  "data_type \<notin> {dt_prefecture, dt_age, dt_trend, dt_density} \<Longrightarrow>
   main_content data_type view_type = Inr None"
  by (simp add: main_content_def)

theorem main_content_other_selection_witness:
  "[0x58] \<notin> {dt_prefecture, dt_age, dt_trend, dt_density} \<and>
   main_content [0x58] vt_detailed = Inr None"
proof -
  have out: "[0x58] \<notin> {dt_prefecture, dt_age, dt_trend, dt_density}"
    by (simp add: dt_prefecture_def dt_age_def dt_trend_def dt_density_def)
  from main_content_other_selection [OF out] out show ?thesis
    by simp
qed

section \<open>The trend metrics\<close>

lemma load_time_series_data_rows:
  "load_time_series_data = Inr
     [\<lparr>yr_year = 2010, yr_total = 128057000\<rparr>, \<lparr>yr_year = 2011, yr_total = 127799000\<rparr>,
      \<lparr>yr_year = 2012, yr_total = 127515000\<rparr>, \<lparr>yr_year = 2013, yr_total = 127298000\<rparr>,
      \<lparr>yr_year = 2014, yr_total = 127095000\<rparr>, \<lparr>yr_year = 2015, yr_total = 126933000\<rparr>,
      \<lparr>yr_year = 2016, yr_total = 126706000\<rparr>, \<lparr>yr_year = 2017, yr_total = 126443000\<rparr>,
      \<lparr>yr_year = 2018, yr_total = 126167000\<rparr>, \<lparr>yr_year = 2019, yr_total = 125836000\<rparr>,
      \<lparr>yr_year = 2020, yr_total = 125502000\<rparr>, \<lparr>yr_year = 2021, yr_total = 125124000\<rparr>,
      \<lparr>yr_year = 2022, yr_total = 124777000\<rparr>, \<lparr>yr_year = 2023, yr_total = 124612000\<rparr>]"
  by (simp add: load_time_series_data_def DataFrame_time_def years_def total_pop_series_def)

text \<open>
  C2. On the fixed series of 14 records for the years 2010 to 2023 the trend view computes
  the change 124612000 - 128057000 = -3445000, the average annual change -3445000 / 14,
  shown as -246071, and the change rate -3445000 / 128057000 * 100, shown as -2.7%.
\<close>

theorem trend_metrics:
  "\<exists>df v. load_time_series_data = Inr df \<and> length df = 14 \<and>
     map yr_year df = [2010, 2011, 2012, 2013, 2014, 2015, 2016, 2017, 2018, 2019, 2020,
                       2021, 2022, 2023] \<and>
     iloc_first (map yr_total df) = Inr 128057000 \<and>
     iloc_last (map yr_total df) = Inr 124612000 \<and>
     trend_view df = Inr v \<and>
     main_content dt_trend view_type = Inr (Some (TrendView v)) \<and>
     tv_change v = 124612000 - 128057000 \<and>
     tv_change v = - 3445000 \<and>
     tv_annual_change v = Finite (- 3445000 / 14) \<and>
     tv_annual_metric v = ''-246071'' \<and>
     tv_change_rate v = Finite (- 3445000 / 128057000 * 100) \<and>
     tv_rate_metric v = ''-2.7%''"
  unfolding load_time_series_data_rows
  by (simp add: main_content_def load_time_series_data_rows trend_view_def iloc_first_def
      iloc_last_def np_truediv_def round_half_even_def Let_def
      dt_trend_def dt_prefecture_def dt_age_def)

section \<open>The traditional age classification\<close>

lemma load_age_data_rows:
  "load_age_data = Inr
     [\<lparr>ag_label = age_0_9, ag_pop = 9500000\<rparr>, \<lparr>ag_label = age_10_19, ag_pop = 11200000\<rparr>,
      \<lparr>ag_label = age_20_29, ag_pop = 12800000\<rparr>, \<lparr>ag_label = age_30_39, ag_pop = 14500000\<rparr>,
      \<lparr>ag_label = age_40_49, ag_pop = 16800000\<rparr>, \<lparr>ag_label = age_50_59, ag_pop = 17200000\<rparr>,
      \<lparr>ag_label = age_60_69, ag_pop = 16500000\<rparr>, \<lparr>ag_label = age_70_79, ag_pop = 12400000\<rparr>,
      \<lparr>ag_label = age_80_89, ag_pop = 8100000\<rparr>, \<lparr>ag_label = age_90_plus, ag_pop = 2500000\<rparr>]"
  by (simp add: load_age_data_def DataFrame_age_def age_groups_def age_populations_def)

lemmas age_band_defs =
  age_0_9_def age_10_19_def age_20_29_def age_30_39_def age_40_49_def
  age_50_59_def age_60_69_def age_70_79_def age_80_89_def age_90_plus_def

lemma age_groups_distinct: "distinct age_groups"
  by (simp add: age_groups_def age_band_defs)

lemma bands_cover:
  "set young_bands \<union> set working_bands \<union> set elderly_bands = set age_groups"
  by (auto simp: young_bands_def working_bands_def elderly_bands_def age_groups_def)

lemma bands_disjoint:
  "set young_bands \<inter> set working_bands = {}"
  "set young_bands \<inter> set elderly_bands = {}"
  "set working_bands \<inter> set elderly_bands = {}"
  using age_groups_distinct
  by (auto simp: young_bands_def working_bands_def elderly_bands_def age_groups_def)

lemma sum_where_partition:
  assumes "A \<inter> B = {}" "A \<inter> C = {}" "B \<inter> C = {}"
  shows "sum_where (\<lambda>r. ag_label r \<in> A) df + sum_where (\<lambda>r. ag_label r \<in> B) df +
         sum_where (\<lambda>r. ag_label r \<in> C) df = sum_where (\<lambda>r. ag_label r \<in> A \<union> B \<union> C) df"
  using assms by (induction df) (auto simp: sum_where_def)

lemma sum_where_all:
  "\<forall>r\<in>set df. keep r \<Longrightarrow> sum_where keep df = sum_list (map ag_pop df)"
  by (induction df) (auto simp: sum_where_def)

lemma groups_sum:
  "young df + working df + elderly df = sum_where (\<lambda>r. ag_label r \<in> set age_groups) df"
  unfolding young_def working_def elderly_def isin_def
  using sum_where_partition [OF bands_disjoint, of df] by (simp add: bands_cover)

text \<open>
  C3. The three membership lists of the traditional classification partition the ten age
  bands: together they are the ten bands and no band is in two of them. Hence the three
  group populations add up to the population of the rows in those bands, which is the
  whole frame when every row carries one of the ten labels; on the fixed table
  20700000 + 61300000 + 39500000 = 121500000.
\<close>

theorem traditional_groups_partition:
  "length age_groups = 10 \<and> distinct age_groups \<and>
   set young_bands \<union> set working_bands \<union> set elderly_bands = set age_groups \<and>
   set young_bands \<inter> set working_bands = {} \<and>
   set young_bands \<inter> set elderly_bands = {} \<and>
   set working_bands \<inter> set elderly_bands = {} \<and>
   young_bands = [age_0_9, age_10_19] \<and>
   working_bands = [age_20_29, age_30_39, age_40_49, age_50_59] \<and>
   elderly_bands = [age_60_69, age_70_79, age_80_89, age_90_plus] \<and>
   map ag_pop (df_display df vt_traditional) = [young df, working df, elderly df] \<and>
   ((\<forall>r\<in>set df. ag_label r \<in> set age_groups) \<longrightarrow>
      sum_list (map ag_pop (df_display df vt_traditional)) = sum_list (map ag_pop df)) \<and>
   (\<exists>t. load_age_data = Inr t \<and> length t = 10 \<and> map ag_label t = age_groups \<and>
      young t = 20700000 \<and> working t = 61300000 \<and> elderly t = 39500000 \<and>
      sum_list (map ag_pop (df_display t vt_traditional)) = 121500000 \<and>
      sum_list (map ag_pop t) = 121500000)"
proof -
  have disp: "map ag_pop (df_display d vt_traditional) = [young d, working d, elderly d]" for d
    by (simp add: df_display_def)
  have sums: "sum_list (map ag_pop (df_display df vt_traditional)) = sum_list (map ag_pop df)"
    if "\<forall>r\<in>set df. ag_label r \<in> set age_groups"
    using groups_sum [of df] sum_where_all [OF that] by (simp add: disp)
  have fixed: "\<exists>t. load_age_data = Inr t \<and> length t = 10 \<and> map ag_label t = age_groups \<and>
      young t = 20700000 \<and> working t = 61300000 \<and> elderly t = 39500000 \<and>
      sum_list (map ag_pop (df_display t vt_traditional)) = 121500000 \<and>
      sum_list (map ag_pop t) = 121500000"
    unfolding load_age_data_rows
    by (simp add: disp young_def working_def elderly_def sum_where_def isin_def
        young_bands_def working_bands_def elderly_bands_def age_groups_def age_band_defs)
  show ?thesis
    using disp [of df] sums fixed age_groups_distinct bands_cover bands_disjoint
    by (simp add: age_groups_def young_bands_def working_bands_def elderly_bands_def)
qed

theorem traditional_groups_partition_witness:
  "\<exists>t. load_age_data = Inr t \<and>
     sum_list (map ag_pop (df_display t vt_traditional)) = sum_list (map ag_pop t)"
proof -
  obtain t where t: "load_age_data = Inr t" and lab: "map ag_label t = age_groups"
    unfolding load_age_data_rows by (simp add: age_groups_def)
  have "\<forall>r\<in>set t. ag_label r \<in> set age_groups"
    using lab by (metis image_eqI list.set_map)
  with traditional_groups_partition [of t] t show ?thesis
    by blast
qed

section \<open>The first maximum\<close>



lemma idxmax_nonempty: "xs \<noteq> [] \<Longrightarrow> \<exists>i. idxmax xs = Inr i"
  by (cases xs) simp_all

section \<open>The summary of the age view\<close>

lemmas group_label_defs = lbl_young_def lbl_working_def lbl_elderly_def pat_elderly_def

lemma elderly_pattern:
  "str_contains pat_elderly lbl_elderly" "\<not> str_contains pat_elderly lbl_working"
  "\<not> str_contains pat_elderly lbl_young"
  by (simp_all add: group_label_defs)

lemma elderly_ratio_traditional:
  "elderly_ratio df_age vt_traditional =
     times_100 (np_truediv (elderly df_age) (young df_age + working df_age + elderly df_age))"
  by (simp add: elderly_ratio_def df_display_def sum_where_def elderly_pattern add.assoc)

lemma elderly_ratio_detailed:
  "view_type \<noteq> vt_traditional \<Longrightarrow>
   elderly_ratio df_age view_type =
     times_100 (np_truediv (elderly df_age) (sum_list (map ag_pop df_age)))"
  by (simp add: elderly_ratio_def df_display_def)









section \<open>The share column\<close>




section \<open>The elderly ratio in the two modes\<close>

text \<open>
  C9. On the fixed age table the elderly ratio of the detailed mode and that of the
  traditional mode are the same number, the sum of the bands 60-69, 70-79, 80-89 and 90+
  divided by the sum of the ten bands, times 100: the two modes have the same total, and
  the "elderly" group is the sum of those four bands.
\<close>

theorem elderly_ratio_same_in_both_modes:
  "\<exists>t v1 v2. load_age_data = Inr t \<and>
     age_view t vt_detailed = Inr v1 \<and> age_view t vt_traditional = Inr v2 \<and>
     main_content dt_age vt_detailed = Inr (Some (AgeView v1)) \<and>
     main_content dt_age vt_traditional = Inr (Some (AgeView v2)) \<and>
     av_elderly_ratio v1 = av_elderly_ratio v2 \<and>
     av_elderly_ratio v1 =
       Finite (of_int (elderly t) / of_int (sum_list (map ag_pop t)) * 100) \<and>
     elderly t = 16500000 + 12400000 + 8100000 + 2500000 \<and>
     sum_list (map ag_pop t) = 121500000 \<and>
     av_total_pop v1 = sum_list (map ag_pop t) \<and> av_total_pop v2 = av_total_pop v1 \<and>
     df_display t vt_traditional ! 2 = \<lparr>ag_label = lbl_elderly, ag_pop = elderly t\<rparr> \<and>
     av_elderly_metric v1 = ''32.5%'' \<and> av_elderly_metric v2 = ''32.5%''"
proof -
  obtain t where t: "load_age_data = Inr t" and rows: "t =
     [\<lparr>ag_label = age_0_9, ag_pop = 9500000\<rparr>, \<lparr>ag_label = age_10_19, ag_pop = 11200000\<rparr>,
      \<lparr>ag_label = age_20_29, ag_pop = 12800000\<rparr>, \<lparr>ag_label = age_30_39, ag_pop = 14500000\<rparr>,
      \<lparr>ag_label = age_40_49, ag_pop = 16800000\<rparr>, \<lparr>ag_label = age_50_59, ag_pop = 17200000\<rparr>,
      \<lparr>ag_label = age_60_69, ag_pop = 16500000\<rparr>, \<lparr>ag_label = age_70_79, ag_pop = 12400000\<rparr>,
      \<lparr>ag_label = age_80_89, ag_pop = 8100000\<rparr>, \<lparr>ag_label = age_90_plus, ag_pop = 2500000\<rparr>]"
    unfolding load_age_data_rows by simp
  have ne: "vt_detailed \<noteq> vt_traditional"
    by (simp add: vt_detailed_def vt_traditional_def)
  have tot: "sum_list (map ag_pop t) = 121500000"
    unfolding rows by simp
  have y: "young t = 20700000" and w: "working t = 61300000" and e: "elderly t = 39500000"
    unfolding rows
    by (simp_all add: young_def working_def elderly_def sum_where_def isin_def
        young_bands_def working_bands_def elderly_bands_def age_band_defs)
  have disp_d: "df_display t vt_detailed = t"
    using ne by (simp add: df_display_def)
  have disp_t: "df_display t vt_traditional =
      [\<lparr>ag_label = lbl_young, ag_pop = 20700000\<rparr>, \<lparr>ag_label = lbl_working, ag_pop = 61300000\<rparr>,
       \<lparr>ag_label = lbl_elderly, ag_pop = 39500000\<rparr>]"
    by (simp add: df_display_def y w e)
  have r_d: "elderly_ratio t vt_detailed = Finite (39500000 / 121500000 * 100)"
    unfolding elderly_ratio_detailed [OF ne] e tot by (simp add: np_truediv_def)
  have r_t: "elderly_ratio t vt_traditional = Finite (39500000 / 121500000 * 100)"
    unfolding elderly_ratio_traditional y w e by (simp add: np_truediv_def)
  have "\<exists>i. idxmax (map ag_pop t) = Inr i"
    by (rule idxmax_nonempty) (simp add: rows)
  then obtain v1 where v1: "age_view t vt_detailed = Inr v1"
    and v1f: "av_elderly_ratio v1 = elderly_ratio t vt_detailed"
      "av_elderly_metric v1 = format_f 1 (elderly_ratio t vt_detailed) @ ''%''"
      "av_total_pop v1 = sum_list (map ag_pop t)"
    by (auto simp: age_view_def disp_d Let_def)
  obtain v2 where v2: "age_view t vt_traditional = Inr v2"
    and v2f: "av_elderly_ratio v2 = elderly_ratio t vt_traditional"
      "av_elderly_metric v2 = format_f 1 (elderly_ratio t vt_traditional) @ ''%''"
      "av_total_pop v2 = 121500000"
    by (simp add: age_view_def disp_t Let_def)
  have dt: "dt_age \<noteq> dt_prefecture"
    by (simp add: dt_age_def dt_prefecture_def)
  have m1: "main_content dt_age vt_detailed = Inr (Some (AgeView v1))"
    by (simp add: main_content_def dt t v1)
  have m2: "main_content dt_age vt_traditional = Inr (Some (AgeView v2))"
    by (simp add: main_content_def dt t v2)
  have grp: "df_display t vt_traditional ! 2 = \<lparr>ag_label = lbl_elderly, ag_pop = elderly t\<rparr>"
    by (simp add: disp_t e)
  have same: "av_elderly_ratio v1 = av_elderly_ratio v2"
    unfolding v1f v2f r_d r_t ..
  have ratio: "av_elderly_ratio v1 =
      Finite (of_int (elderly t) / of_int (sum_list (map ag_pop t)) * 100)"
    unfolding v1f r_d e tot by simp
  have bands: "elderly t = 16500000 + 12400000 + 8100000 + 2500000"
    unfolding e by simp
  have totals: "av_total_pop v1 = sum_list (map ag_pop t)" "av_total_pop v2 = av_total_pop v1"
    unfolding v1f v2f tot by simp_all
  have metric1: "av_elderly_metric v1 = ''32.5%''"
    unfolding v1f r_d by (simp add: round_half_even_def Let_def)
  have metric2: "av_elderly_metric v2 = ''32.5%''"
    unfolding v2f r_t by (simp add: round_half_even_def Let_def)
  from t v1 v2 m1 m2 same ratio bands tot totals grp metric1 metric2 show ?thesis
    by blast
qed

end
